theory Spec2Isabelle
  imports Complex_Main "HOL-Library.AList" "HOL-Library.Sublist"
begin

section \<open>JavaScript values\<close>

text \<open>
  The values that flow through \<^verbatim>\<open>src/App.jsx\<close>: what \<^verbatim>\<open>JSON.parse\<close> returns, what the
  React state variables hold and what a property read yields. A text is a \<open>string\<close>
  (the bytes of its UTF-8 form, as the source file has them); a number is the value of the double
  (both zeros are \<open>0\<close>); an object is the list of its own properties in insertion order,
  each key once, read with \<open>map_of\<close>. \<open>JUndefined\<close> is the result of reading a property
  that is not there.
\<close>

datatype jsval =
    JUndefined
  | JNull
  | JBool bool
  | JNum rat
  | JStr string
  | JArr "jsval list"
  | JObj "(string \<times> jsval) list"

datatype error = TypeError

text \<open>ToBoolean, as \<^verbatim>\<open>!x\<close>, \<^verbatim>\<open>x && y\<close> and \<^verbatim>\<open>x || y\<close> apply it.\<close>

fun truthy :: "jsval \<Rightarrow> bool" where
  "truthy JUndefined = False"
| "truthy JNull = False"
| "truthy (JBool b) = b"
| "truthy (JNum n) = (n \<noteq> 0)"
| "truthy (JStr s) = (s \<noteq> [])"
| "truthy (JArr xs) = True"
| "truthy (JObj kvs) = True"

fun nullish :: "jsval \<Rightarrow> bool" where
  "nullish JUndefined = True"
| "nullish JNull = True"
| "nullish v = False"

text \<open>
  \<^verbatim>\<open>v.k\<close> for a receiver that is neither \<^verbatim>\<open>null\<close> nor \<^verbatim>\<open>undefined\<close> (on those the read
  throws a TypeError, and every caller below tests \<open>nullish\<close> first) and for the keys this
  program reads this way (\<^verbatim>\<open>lesson\<close>, \<^verbatim>\<open>quiz\<close>, \<^verbatim>\<open>summary\<close>, \<^verbatim>\<open>topic\<close>, \<^verbatim>\<open>correct\<close>, and
  \<^verbatim>\<open>length\<close> of an object), none of which is a built-in property of the receiver.
\<close>

fun property :: "jsval \<Rightarrow> string \<Rightarrow> jsval" where
  "property (JObj kvs) k = (case map_of kvs k of Some v \<Rightarrow> v | None \<Rightarrow> JUndefined)"
| "property v k = JUndefined"

fun isArray :: "jsval \<Rightarrow> bool" where
  "isArray (JArr xs) = True"
| "isArray v = False"

text \<open>
  \<^verbatim>\<open>a === b\<close>. Two arrays or two objects are equal only when they are the same reference;
  the values compared in \<^verbatim>\<open>submitQuiz\<close> are a chosen option (an element of an item's \<^verbatim>\<open>a\<close>)
  and the item's \<^verbatim>\<open>correct\<close>, two different nodes of the parsed tree, so a comparison of
  two compound values is \<open>False\<close>.
\<close>

fun strict_eq :: "jsval \<Rightarrow> jsval \<Rightarrow> bool" where
  "strict_eq JUndefined JUndefined = True"
| "strict_eq JNull JNull = True"
| "strict_eq (JBool a) (JBool b) = (a = b)"
| "strict_eq (JNum a) (JNum b) = (a = b)"
| "strict_eq (JStr a) (JStr b) = (a = b)"
| "strict_eq a b = False"

text \<open>\<^verbatim>\<open>x || d\<close> on values.\<close>

definition or_else :: "jsval \<Rightarrow> jsval \<Rightarrow> jsval" where
  "or_else x d = (if truthy x then x else d)"

text \<open>
  The white space and line terminators of ECMAScript, each as its UTF-8 bytes: TAB, LF,
  VT, FF, CR, SP, then U+00A0, U+1680, U+2000 to U+200A, U+2028, U+2029, U+202F, U+205F,
  U+3000 and U+FEFF.
\<close>

definition white_space :: "string list" where
  "white_space =
     [[CHR 0x09], [CHR 0x0A], [CHR 0x0B], [CHR 0x0C], [CHR 0x0D], [CHR 0x20],
      [CHR 0xC2, CHR 0xA0],
      [CHR 0xE1, CHR 0x9A, CHR 0x80],
      [CHR 0xE2, CHR 0x80, CHR 0x80], [CHR 0xE2, CHR 0x80, CHR 0x81],
      [CHR 0xE2, CHR 0x80, CHR 0x82], [CHR 0xE2, CHR 0x80, CHR 0x83],
      [CHR 0xE2, CHR 0x80, CHR 0x84], [CHR 0xE2, CHR 0x80, CHR 0x85],
      [CHR 0xE2, CHR 0x80, CHR 0x86], [CHR 0xE2, CHR 0x80, CHR 0x87],
      [CHR 0xE2, CHR 0x80, CHR 0x88], [CHR 0xE2, CHR 0x80, CHR 0x89],
      [CHR 0xE2, CHR 0x80, CHR 0x8A],
      [CHR 0xE2, CHR 0x80, CHR 0xA8], [CHR 0xE2, CHR 0x80, CHR 0xA9],
      [CHR 0xE2, CHR 0x80, CHR 0xAF],
      [CHR 0xE2, CHR 0x81, CHR 0x9F],
      [CHR 0xE3, CHR 0x80, CHR 0x80],
      [CHR 0xEF, CHR 0xBB, CHR 0xBF]]"

text \<open>
  The number of bytes of the white space character a text starts with (0 when it starts
  with none), for the characters \<open>ws\<close>; and the text without the white space at its
  start.
\<close>

definition space_length :: "string list \<Rightarrow> string \<Rightarrow> nat" where
  "space_length ws s = (case find (\<lambda>p. prefix p s) ws of Some p \<Rightarrow> length p | None \<Rightarrow> 0)"

fun strip :: "string list \<Rightarrow> string \<Rightarrow> string" where
  "strip ws [] = []"
| "strip ws (c # cs) =
     (if space_length ws (c # cs) = 0 then c # cs
      else strip ws (drop (space_length ws (c # cs) - 1) cs))"

text \<open>
  \<^verbatim>\<open>String.prototype.trim\<close>: the white space is taken off the start, and off the end by
  reading the text and the characters backwards (in UTF-8 the bytes of a character end no
  other character).
\<close>

definition trim :: "string \<Rightarrow> string" where
  "trim s = rev (strip (map rev white_space) (rev (strip white_space s)))"

text \<open>
  \<^verbatim>\<open>xs.slice(-k)\<close> for \<open>k > 0\<close>: the start index is \<open>max (length xs - k) 0\<close>, the end is the
  end of the array.
\<close>

definition slice_last :: "nat \<Rightarrow> 'a list \<Rightarrow> 'a list" where
  "slice_last k xs = drop (length xs - k) xs"

text \<open>The property key of an array index: its decimal numeral.\<close>

definition digit_char :: "nat \<Rightarrow> char" where
  "digit_char d = char_of (d + 48)"

fun index_key :: "nat \<Rightarrow> string" where
  "index_key n =
     (if 10 \<le> n then index_key (n div 10) @ [digit_char (n mod 10)] else [digit_char n])"

declare index_key.simps [simp del]

section \<open>extractJSON (lines 25-43)\<close>

text \<open>
  \<^verbatim>\<open>text.match(/\{[\s\S]*\}|\[[\s\S]*\]/)\<close>: the leftmost position where one alternative
  matches. At a \<^verbatim>\<open>{\<close> the first alternative matches when a \<^verbatim>\<open>}\<close> follows, and the greedy
  star takes everything up to the last \<^verbatim>\<open>}\<close> of the text; likewise for \<^verbatim>\<open>[\<close> and \<^verbatim>\<open>]\<close>.
\<close>

definition upto_last :: "char \<Rightarrow> string \<Rightarrow> string" where
  "upto_last c s = rev (dropWhile (\<lambda>d. d \<noteq> c) (rev s))"

fun jsonMatch :: "string \<Rightarrow> string option" where
  "jsonMatch [] = None"
| "jsonMatch (c # cs) =
     (if c = CHR ''{'' \<and> CHR ''}'' \<in> set cs then Some (c # upto_last CHR ''}'' cs)
      else if c = CHR ''['' \<and> CHR '']'' \<in> set cs then Some (c # upto_last CHR '']'' cs)
      else jsonMatch cs)"

text \<open>
  \<^verbatim>\<open>JSON.parse\<close> belongs to the runtime, not to the repository: it is the parameter
  \<open>parse\<close>, \<open>None\<close> when it throws a SyntaxError. \<open>extractJSON\<close> returns \<open>JNull\<close> where
  the source returns \<^verbatim>\<open>null\<close>.
\<close>

type_synonym parser = "string \<Rightarrow> jsval option"

definition extractJSON :: "parser \<Rightarrow> string \<Rightarrow> jsval" where
  "extractJSON parse text =
     (if text = [] then JNull
      else case parse text of
        Some v \<Rightarrow> v
      | None \<Rightarrow>
          (case jsonMatch text of
             Some block \<Rightarrow> (case parse block of Some v \<Rightarrow> v | None \<Rightarrow> JNull)
           | None \<Rightarrow> JNull))"

section \<open>The lesson of a reply (lines 89-113)\<close>

text \<open>
  Lines 89-94: the parse and the guard
  \<^verbatim>\<open>parsed && parsed.lesson && parsed.quiz && parsed.summary\<close>, and the three values the
  success branch stores. The failure keeps the raw text, which the fallback shows.
\<close>

datatype lesson_record =
  LessonRecord (the_lesson: jsval) (the_quiz: jsval) (the_summary: jsval)

datatype normalization =
    Normalized lesson_record
  | NormalizationFailure string

definition normalize_text :: "parser \<Rightarrow> string \<Rightarrow> normalization" where
  "normalize_text parse rawText =
     (let parsed = extractJSON parse rawText in
      if truthy parsed \<and> truthy (property parsed ''lesson'') \<and> truthy (property parsed ''quiz'')
         \<and> truthy (property parsed ''summary'')
      then Normalized (LessonRecord (property parsed ''lesson'')
             (if isArray (property parsed ''quiz'') then property parsed ''quiz'' else JArr [])
             (property parsed ''summary''))
      else NormalizationFailure rawText)"

text \<open>Lines 99-112: the fallback lesson, quiz and summary, built from the topic.\<close>

definition fallback_lesson :: "string \<Rightarrow> string \<Rightarrow> string" where
  \<open>fallback_lesson t rawText =
     (if rawText \<noteq> [] then rawText
      else ''Lesson generation failed for "'' @ t @ ''". Check console.'')\<close>

definition fallback_quiz :: "string \<Rightarrow> jsval list" where
  "fallback_quiz t =
     [JObj [(''q'', JStr (''What is '' @ t @ ''?'')),
            (''a'', JArr [JStr ''A function'', JStr ''A concept'', JStr ''A library'']),
            (''correct'', JStr ''A concept'')],
      JObj [(''q'', JStr (''Why is '' @ t @ '' important?'')),
            (''a'', JArr [JStr ''For styling'', JStr ''For organization'', JStr ''For memory'']),
            (''correct'', JStr ''For organization'')]]"

definition fallback_summary :: "string \<Rightarrow> string" where
  "fallback_summary t = t @ '' helps developers write clean and maintainable code.''"

definition synthesize :: "string \<Rightarrow> string \<Rightarrow> lesson_record" where
  "synthesize t rawText =
     LessonRecord (JStr (fallback_lesson t rawText)) (JArr (fallback_quiz t))
       (JStr (fallback_summary t))"

section \<open>The component's state and what it does to the outside\<close>

text \<open>
  The state variables of \<^verbatim>\<open>App\<close> (lines 8-20), the entry \<^verbatim>\<open>autotutor-progress\<close> of
  \<^verbatim>\<open>localStorage\<close>, and the log of the calls that leave the component. A state variable
  holds whatever value the code stores in it: \<^verbatim>\<open>setLesson(parsed.lesson)\<close> stores any truthy
  value of the reply, so \<open>topic\<close>, \<open>lesson\<close>, \<open>quiz\<close> and \<open>summary\<close> are \<open>jsval\<close>s. The
  store holds the value whose \<^verbatim>\<open>JSON.stringify\<close> text was saved (\<^verbatim>\<open>JSON.parse\<close> of that text
  gives it back); \<open>None\<close> is the missing entry.

  A handler bound in the JSX reads the state of the latest render, which is the current
  \<open>world\<close>. An \<^verbatim>\<open>async\<close> handler is two steps: the part before the first \<^verbatim>\<open>await\<close>, which
  sends the request, and the part after it, run when the request settles; handlers of
  other events may run in between.
\<close>

datatype role = System | User | Assistant

record message =
  role :: role
  content :: string

datatype effect =
    Alert string
  | LessonRequest string
  | ChatRequest "message list"
  | Speak string

record world =
  topic :: jsval
  lesson :: jsval
  quiz :: jsval
  summary :: jsval
  selected :: "(string \<times> jsval) list"
  score :: "nat option"
  loading :: bool
  messages :: "message list"
  chatInput :: string
  chatLoading :: bool
  storage :: "jsval option"
  effects :: "effect list"

text \<open>The initial values of \<^verbatim>\<open>useState\<close>, around a given store.\<close>

definition initial :: "jsval option \<Rightarrow> world" where
  "initial st =
     \<lparr>topic = JStr [], lesson = JStr [], quiz = JArr [], summary = JStr [], selected = [],
      score = None, loading = False, messages = [], chatInput = [], chatLoading = False,
      storage = st, effects = []\<rparr>"

text \<open>
  What the awaited transport calls give a handler: one of them throws (\<^verbatim>\<open>fetch\<close> rejects,
  or \<^verbatim>\<open>response.json()\<close> does), or lines 85 and 164 read the text of the reply, the
  empty text when the result has no choice in it.
\<close>

datatype reply = Threw | RawText string

text \<open>The dash of the two messages, as the bytes of the source file.\<close>

definition dash :: string where
  "dash = [CHR 0xC3, CHR 0xA2, CHR 0xE2, CHR 0x82, CHR 0xAC, CHR 0xE2, CHR 0x80, CHR 0x9D]"

definition connect_alert :: string where
  "connect_alert = ''Error connecting to Groq API '' @ dash @ '' check console and your API key.''"

definition chat_error_text :: string where
  "chat_error_text =
     ''Sorry '' @ dash @ '' there was an error fetching a response. Check console.''"

section \<open>fetchLesson (lines 45-120)\<close>

text \<open>\<^verbatim>\<open>{ topic, ...parsed }\<close>: the topic first, then the own properties of the reply over it.\<close>

fun own_properties :: "jsval \<Rightarrow> (string \<times> jsval) list" where
  "own_properties (JObj kvs) = kvs"
| "own_properties v = []"

definition lesson_snapshot :: "string \<Rightarrow> jsval \<Rightarrow> jsval" where
  "lesson_snapshot t parsed =
     JObj (fold (\<lambda>(k, v). AList.update k v) (own_properties parsed) [(''topic'', JStr t)])"

text \<open>Lines 47-81: the resets before the \<^verbatim>\<open>try\<close>, and the request.\<close>

definition fetchLesson_begin :: "string \<Rightarrow> world \<Rightarrow> world" where
  "fetchLesson_begin t w =
     w\<lparr>loading := True, lesson := JStr [], quiz := JArr [], summary := JStr [],
       score := None, selected := [], messages := [],
       effects := effects w @ [LessonRequest t]\<rparr>"

text \<open>
  Line 46 and on: \<^verbatim>\<open>topic.trim()\<close> throws a TypeError unless the topic is a string; a blank
  topic gets the alert and nothing else.
\<close>

definition fetchLesson_call :: "world \<Rightarrow> error + world" where
  "fetchLesson_call w =
     (case topic w of
        JStr t \<Rightarrow>
          if trim t = [] then Inr (w\<lparr>effects := effects w @ [Alert ''Please enter a topic first!'']\<rparr>)
          else Inr (fetchLesson_begin t w)
      | _ \<Rightarrow> Inl TypeError)"

text \<open>\<^verbatim>\<open>setLesson\<close>, \<^verbatim>\<open>setQuiz\<close> and \<^verbatim>\<open>setSummary\<close> of either branch.\<close>

definition show_record :: "lesson_record \<Rightarrow> world \<Rightarrow> world" where
  "show_record r w = w\<lparr>lesson := the_lesson r, quiz := the_quiz r, summary := the_summary r\<rparr>"

text \<open>
  Lines 83-119, run when the request has settled: \<open>t\<close> is the topic the call was made
  with (the handler's own \<^verbatim>\<open>topic\<close>). The fallback branch writes nothing to the store.
\<close>

definition fetchLesson_settle :: "parser \<Rightarrow> string \<Rightarrow> reply \<Rightarrow> world \<Rightarrow> world" where
  "fetchLesson_settle parse t rp w =
     (case rp of
        Threw \<Rightarrow> w\<lparr>effects := effects w @ [Alert connect_alert], loading := False\<rparr>
      | RawText rawText \<Rightarrow>
          (case normalize_text parse rawText of
             Normalized r \<Rightarrow>
               (show_record r w)
                 \<lparr>storage := Some (lesson_snapshot t (extractJSON parse rawText)),
                  loading := False\<rparr>
           | NormalizationFailure raw \<Rightarrow> (show_record (synthesize t raw) w)\<lparr>loading := False\<rparr>))"

text \<open>A call whose request settles before any other handler runs.\<close>

definition fetchLesson :: "parser \<Rightarrow> reply \<Rightarrow> world \<Rightarrow> error + world" where
  "fetchLesson parse rp w =
     (case topic w of
        JStr t \<Rightarrow>
          if trim t = [] then fetchLesson_call w
          else Inr (fetchLesson_settle parse t rp (fetchLesson_begin t w))
      | _ \<Rightarrow> Inl TypeError)"

section \<open>sendChatMessage (lines 123-182)\<close>

definition chat_system_prompt :: string where
  "chat_system_prompt =
     ''You are a helpful, concise teaching assistant. Answer the user'' @ [CHR 0x27] @
     ''s questions clearly and directly. When helpful, provide short code examples. '' @
     ''Keep responses brief (2-6 sentences) unless the user asks for more detail.''"

text \<open>Line 143: the last ten messages the handler sees, copied field by field.\<close>

definition windowForPrompt :: "message list \<Rightarrow> message list" where
  "windowForPrompt ms = map (\<lambda>m. \<lparr>role = role m, content = content m\<rparr>) (slice_last 10 ms)"

text \<open>
  Lines 124-161. The guard and the history read the \<^verbatim>\<open>chatLoading\<close> and \<^verbatim>\<open>messages\<close> of the
  render the handler was created in (\<open>seenLoading\<close>, \<open>seenMessages\<close>); the updates of the
  state are functional and act on the current state.
\<close>

definition sendChatMessage_call :: "bool \<Rightarrow> message list \<Rightarrow> string \<Rightarrow> world \<Rightarrow> world" where
  "sendChatMessage_call seenLoading seenMessages userText w =
     (if userText = [] \<or> seenLoading then w
      else
        let userMsg = \<lparr>role = User, content = userText\<rparr> in
        w\<lparr>messages := messages w @ [userMsg], chatInput := [], chatLoading := True,
          effects := effects w @
            [ChatRequest (\<lparr>role = System, content = chat_system_prompt\<rparr>
               # windowForPrompt seenMessages @ [userMsg])]\<rparr>)"

text \<open>Lines 163-181, run when the request has settled.\<close>

definition sendChatMessage_settle :: "bool \<Rightarrow> reply \<Rightarrow> world \<Rightarrow> world" where
  "sendChatMessage_settle speakResponse rp w =
     (case rp of
        RawText rawText \<Rightarrow>
          w\<lparr>messages := messages w @ [\<lparr>role = Assistant, content = rawText\<rparr>],
            effects := effects w @ (if speakResponse \<and> rawText \<noteq> [] then [Speak rawText] else []),
            chatLoading := False\<rparr>
      | Threw \<Rightarrow>
          w\<lparr>messages := messages w @ [\<lparr>role = Assistant, content = chat_error_text\<rparr>],
            chatLoading := False\<rparr>)"

text \<open>
  A call from a handler of the current render whose request settles before any other
  handler runs. A call stopped by the guard of line 124 sends nothing and has no second
  step.
\<close>

definition sendChatMessage :: "string \<Rightarrow> bool \<Rightarrow> reply \<Rightarrow> world \<Rightarrow> world" where
  "sendChatMessage userText speakResponse rp w =
     (if userText = [] \<or> chatLoading w then w
      else sendChatMessage_settle speakResponse rp
             (sendChatMessage_call (chatLoading w) (messages w) userText w))"

section \<open>The quiz and the saved progress (lines 264-312)\<close>

text \<open>Lines 264-275. A \<^verbatim>\<open>null\<close> entry makes \<^verbatim>\<open>parsed.topic\<close> throw into the empty \<^verbatim>\<open>catch\<close>.\<close>

definition load_progress :: "world \<Rightarrow> world" where
  "load_progress w =
     (case storage w of
        None \<Rightarrow> w
      | Some parsed \<Rightarrow>
          if nullish parsed then w
          else w\<lparr>topic := or_else (property parsed ''topic'') (JStr []),
                 lesson := or_else (property parsed ''lesson'') (JStr []),
                 quiz := or_else (property parsed ''quiz'') (JArr []),
                 summary := or_else (property parsed ''summary'') (JStr [])\<rparr>)"

text \<open>\<^verbatim>\<open>selected[i]\<close>.\<close>

definition selection :: "(string \<times> jsval) list \<Rightarrow> nat \<Rightarrow> jsval" where
  "selection sel i = (case map_of sel (index_key i) of Some v \<Rightarrow> v | None \<Rightarrow> JUndefined)"

text \<open>Lines 277-284.\<close>

definition selectOption :: "nat \<Rightarrow> jsval \<Rightarrow> world \<Rightarrow> world" where
  "selectOption qIndex opt w =
     (if score w \<noteq> None then w
      else
        let next = AList.update (index_key qIndex) opt (selected w) in
        w\<lparr>selected := next,
          storage := Some (JObj [(''topic'', topic w), (''lesson'', lesson w), (''quiz'', quiz w),
            (''summary'', summary w), (''selected'', JObj next)])\<rparr>)"

text \<open>
  Lines 288-291: the \<^verbatim>\<open>forEach\<close> from index \<open>i\<close> with the count \<open>s\<close> so far. Reading
  \<^verbatim>\<open>q.correct\<close> of a \<^verbatim>\<open>null\<close> item throws.
\<close>

fun count_correct :: "(string \<times> jsval) list \<Rightarrow> jsval list \<Rightarrow> nat \<Rightarrow> nat \<Rightarrow> error + nat" where
  "count_correct sel [] i s = Inr s"
| "count_correct sel (q # qs) i s =
     (if nullish q then Inl TypeError
      else count_correct sel qs (Suc i)
             (if strict_eq (selection sel i) (property q ''correct'') then Suc s else s))"

text \<open>
  Lines 286-294. \<open>Inl TypeError\<close> is a handler that threw before any update. A quiz that
  is no array (the loader can store one) has no \<^verbatim>\<open>forEach\<close>; its \<^verbatim>\<open>length\<close> is that of the
  string, or the property of the object.
\<close>

definition submitQuiz :: "world \<Rightarrow> error + world" where
  "submitQuiz w =
     (case quiz w of
        JArr items \<Rightarrow>
          if items = [] then Inr w
          else
            (case count_correct (selected w) items 0 0 of
               Inl e \<Rightarrow> Inl e
             | Inr s \<Rightarrow>
                 Inr (w\<lparr>score := Some s,
                   storage := Some (JObj [(''topic'', topic w), (''lesson'', lesson w),
                     (''quiz'', quiz w), (''summary'', summary w),
                     (''selected'', JObj (selected w)), (''score'', JNum (of_nat s))])\<rparr>))
      | JStr s \<Rightarrow> if s = [] then Inr w else Inl TypeError
      | JObj kvs \<Rightarrow>
          if strict_eq (property (JObj kvs) ''length'') (JNum 0) then Inr w else Inl TypeError
      | _ \<Rightarrow> Inl TypeError)"

text \<open>Lines 296-307 and 310-312.\<close>

definition resetAll :: "world \<Rightarrow> world" where
  "resetAll w =
     w\<lparr>storage := None, topic := JStr [], lesson := JStr [], quiz := JArr [],
       summary := JStr [], selected := [], score := None, messages := [], chatInput := []\<rparr>"

definition clearChat :: "world \<Rightarrow> world" where
  "clearChat w = w\<lparr>messages := []\<rparr>"

section \<open>What the specification asks of the quiz\<close>

text \<open>
  The QuizItem of the specification's data model, on the keys the code uses (\<^verbatim>\<open>q\<close>, \<^verbatim>\<open>a\<close>,
  \<^verbatim>\<open>correct\<close>): a question, exactly three distinct strings as options, and a correct
  option that is one of them.
\<close>

fun is_string :: "jsval \<Rightarrow> bool" where
  "is_string (JStr s) = True"
| "is_string v = False"

definition valid_QuizItem :: "jsval \<Rightarrow> bool" where
  "valid_QuizItem item =
     (case item of
        JObj kvs \<Rightarrow>
          (case (map_of kvs ''q'', map_of kvs ''a'', map_of kvs ''correct'') of
             (Some (JStr question), Some (JArr opts), Some (JStr c)) \<Rightarrow>
               length opts = 3 \<and> list_all is_string opts \<and> distinct opts \<and> JStr c \<in> set opts
           | _ \<Rightarrow> False)
      | _ \<Rightarrow> False)"

text \<open>
  An item that carries a correct option: it is not \<^verbatim>\<open>null\<close>, and its \<^verbatim>\<open>correct\<close> is there and
  is a string, a number, a boolean or \<^verbatim>\<open>null\<close> (the data model types it as a string).
\<close>

fun primitive :: "jsval \<Rightarrow> bool" where
  "primitive JUndefined = False"
| "primitive (JArr xs) = False"
| "primitive (JObj kvs) = False"
| "primitive v = True"

definition has_correctOption :: "jsval \<Rightarrow> bool" where
  "has_correctOption item = (\<not> nullish item \<and> primitive (property item ''correct''))"

text \<open>
  A sequence of \<^verbatim>\<open>select(index, option)\<close> calls, run in order, and the option chosen last
  for an index (\<open>None\<close> when the index was never chosen).
\<close>

definition run_selects :: "(nat \<times> jsval) list \<Rightarrow> world \<Rightarrow> world" where
  "run_selects calls w = fold (\<lambda>(i, opt). selectOption i opt) calls w"

definition final_selection :: "(nat \<times> jsval) list \<Rightarrow> nat \<Rightarrow> jsval option" where
  "final_selection calls i = map_of (rev calls) i"

text \<open>
  A raw text parses, directly or through the bracketed block \<open>jsonMatch\<close> extracts, as the
  value \<open>v\<close>.
\<close>

definition parses_to :: "parser \<Rightarrow> string \<Rightarrow> jsval \<Rightarrow> bool" where
  "parses_to parse raw v =
     (raw \<noteq> [] \<and>
      (parse raw = Some v \<or>
       parse raw = None \<and> (case jsonMatch raw of Some block \<Rightarrow> parse block = Some v | None \<Rightarrow> False)))"

section \<open>Example replies and sessions\<close>

text \<open>
  Replies of the model and the values \<^verbatim>\<open>JSON.parse\<close> gives on them: the lesson of the
  specification's scenario A, the same lesson inside a sentence, a lesson whose \<^verbatim>\<open>quiz\<close>
  is the number 0, a lesson whose only quiz item has two equal options and a correct
  answer that is none of them, a lesson whose only quiz item has no \<^verbatim>\<open>correct\<close>, and the
  refusal of scenario B, which is no JSON.
\<close>

definition reply_A :: string where
  \<open>reply_A =
     ''{"lesson":"X is a thing","quiz":[{"q":"Q1","a":["x","y","z"],"correct":"y"}],"summary":"S"}''\<close>

definition item_A :: jsval where
  "item_A = JObj [(''q'', JStr ''Q1''), (''a'', JArr [JStr ''x'', JStr ''y'', JStr ''z'']),
                  (''correct'', JStr ''y'')]"

definition value_A :: jsval where
  "value_A = JObj [(''lesson'', JStr ''X is a thing''), (''quiz'', JArr [item_A]),
                   (''summary'', JStr ''S'')]"

definition reply_wrapped :: string where
  "reply_wrapped = ''Here is your lesson: '' @ reply_A @ '' Enjoy!''"

definition reply_quiz0 :: string where
  \<open>reply_quiz0 = ''{"lesson":"X","quiz":0,"summary":"S"}''\<close>

definition value_quiz0 :: jsval where
  "value_quiz0 = JObj [(''lesson'', JStr ''X''), (''quiz'', JNum 0), (''summary'', JStr ''S'')]"

definition reply_twice :: string where
  \<open>reply_twice =
     ''{"lesson":"L","quiz":[{"q":"Q","a":["x","x"],"correct":"z"}],"summary":"S"}''\<close>

definition item_twice :: jsval where
  "item_twice = JObj [(''q'', JStr ''Q''), (''a'', JArr [JStr ''x'', JStr ''x'']),
                      (''correct'', JStr ''z'')]"

definition value_twice :: jsval where
  "value_twice = JObj [(''lesson'', JStr ''L''), (''quiz'', JArr [item_twice]),
                       (''summary'', JStr ''S'')]"

definition reply_nocorrect :: string where
  \<open>reply_nocorrect = ''{"lesson":"L","quiz":[{"q":"Q","a":["x","y","z"]}],"summary":"S"}''\<close>

definition item_nocorrect :: jsval where
  "item_nocorrect = JObj [(''q'', JStr ''Q''), (''a'', JArr [JStr ''x'', JStr ''y'', JStr ''z''])]"

definition value_nocorrect :: jsval where
  "value_nocorrect = JObj [(''lesson'', JStr ''L''), (''quiz'', JArr [item_nocorrect]),
                           (''summary'', JStr ''S'')]"

definition reply_B :: string where
  "reply_B = ''Sorry, I can'' @ [CHR 0x27] @ ''t help with that.''"

definition JSON_parse_examples :: parser where
  "JSON_parse_examples text =
     (if text = reply_A then Some value_A
      else if text = reply_quiz0 then Some value_quiz0
      else if text = reply_twice then Some value_twice
      else if text = reply_nocorrect then Some value_nocorrect
      else None)"

text \<open>
  The component after mounting with an empty store and the topic typed in; the session
  \<^verbatim>\<open>fetchLesson\<close> makes of it with the reply whose item has no \<^verbatim>\<open>correct\<close>; the session
  that shows the lesson of scenario A with nothing chosen yet; the same with the answer
  \<^verbatim>\<open>y\<close> chosen and a chat under way; what \<^verbatim>\<open>submitQuiz\<close> saves for it, and the session
  after that.
\<close>

definition typed_topic :: world where
  "typed_topic = (initial None)\<lparr>topic := JStr ''Recursion''\<rparr>"

definition session_nocorrect :: world where
  "session_nocorrect =
     typed_topic\<lparr>lesson := JStr ''L'', quiz := JArr [item_nocorrect], summary := JStr ''S'',
       storage := Some (JObj [(''topic'', JStr ''Recursion''), (''lesson'', JStr ''L''),
         (''quiz'', JArr [item_nocorrect]), (''summary'', JStr ''S'')]),
       effects := [LessonRequest ''Recursion'']\<rparr>"

definition fresh_A :: world where
  "fresh_A =
     (initial None)\<lparr>topic := JStr ''Recursion'', lesson := JStr ''X is a thing'',
       quiz := JArr [item_A], summary := JStr ''S''\<rparr>"

definition session_A :: world where
  "session_A =
     \<lparr>topic = JStr ''Recursion'', lesson = JStr ''X is a thing'', quiz = JArr [item_A],
      summary = JStr ''S'', selected = [(''0'', JStr ''y'')], score = None, loading = False,
      messages = [\<lparr>role = User, content = ''Why?''\<rparr>, \<lparr>role = Assistant, content = ''Because.''\<rparr>],
      chatInput = [], chatLoading = False, storage = None, effects = []\<rparr>"

definition saved_A :: jsval where
  "saved_A =
     JObj [(''topic'', JStr ''Recursion''), (''lesson'', JStr ''X is a thing''),
           (''quiz'', JArr [item_A]), (''summary'', JStr ''S''),
           (''selected'', JObj [(''0'', JStr ''y'')]), (''score'', JNum 1)]"

definition scored_A :: world where
  "scored_A = session_A\<lparr>score := Some 1, storage := Some saved_A\<rparr>"

section \<open>Facts about the examples\<close>

lemma jsonMatch_wrapped: "jsonMatch reply_wrapped = Some reply_A"
  by (simp add: reply_wrapped_def reply_A_def upto_last_def)

lemma jsonMatch_B: "jsonMatch reply_B = None"
  by (simp add: reply_B_def)

lemmas reply_defs =
  reply_A_def reply_wrapped_def reply_quiz0_def reply_twice_def reply_nocorrect_def reply_B_def

lemma parse_A: "JSON_parse_examples reply_A = Some value_A"
  by (simp add: JSON_parse_examples_def)

lemma parse_wrapped: "JSON_parse_examples reply_wrapped = None"
  by (simp add: JSON_parse_examples_def reply_defs)

lemma parse_quiz0: "JSON_parse_examples reply_quiz0 = Some value_quiz0"
  by (simp add: JSON_parse_examples_def reply_defs)

lemma parse_twice: "JSON_parse_examples reply_twice = Some value_twice"
  by (simp add: JSON_parse_examples_def reply_defs)

lemma parse_nocorrect: "JSON_parse_examples reply_nocorrect = Some value_nocorrect"
  by (simp add: JSON_parse_examples_def reply_defs)

lemma parse_B: "JSON_parse_examples reply_B = None"
  by (simp add: JSON_parse_examples_def reply_defs)

lemma reply_nonempty:
  "reply_A \<noteq> []" "reply_wrapped \<noteq> []" "reply_quiz0 \<noteq> []" "reply_twice \<noteq> []"
  "reply_nocorrect \<noteq> []" "reply_B \<noteq> []"
  by (simp_all add: reply_defs)

lemma extract_A: "extractJSON JSON_parse_examples reply_A = value_A"
  by (simp add: extractJSON_def parse_A reply_nonempty)

lemma extract_wrapped: "extractJSON JSON_parse_examples reply_wrapped = value_A"
  by (simp add: extractJSON_def parse_wrapped jsonMatch_wrapped parse_A reply_nonempty)

lemma extract_quiz0: "extractJSON JSON_parse_examples reply_quiz0 = value_quiz0"
  by (simp add: extractJSON_def parse_quiz0 reply_nonempty)

lemma extract_twice: "extractJSON JSON_parse_examples reply_twice = value_twice"
  by (simp add: extractJSON_def parse_twice reply_nonempty)

lemma extract_nocorrect: "extractJSON JSON_parse_examples reply_nocorrect = value_nocorrect"
  by (simp add: extractJSON_def parse_nocorrect reply_nonempty)

lemma extract_B: "extractJSON JSON_parse_examples reply_B = JNull"
  by (simp add: extractJSON_def parse_B jsonMatch_B reply_nonempty)

lemma normalize_A:
  "normalize_text JSON_parse_examples reply_A =
     Normalized (LessonRecord (JStr ''X is a thing'') (JArr [item_A]) (JStr ''S''))"
  by (simp add: normalize_text_def extract_A value_A_def)

lemma normalize_twice:
  "normalize_text JSON_parse_examples reply_twice =
     Normalized (LessonRecord (JStr ''L'') (JArr [item_twice]) (JStr ''S''))"
  by (simp add: normalize_text_def extract_twice value_twice_def)

lemma normalize_nocorrect:
  "normalize_text JSON_parse_examples reply_nocorrect =
     Normalized (LessonRecord (JStr ''L'') (JArr [item_nocorrect]) (JStr ''S''))"
  by (simp add: normalize_text_def extract_nocorrect value_nocorrect_def)

lemma normalize_B: "normalize_text JSON_parse_examples reply_B = NormalizationFailure reply_B"
  by (simp add: normalize_text_def extract_B)

lemma trim_Recursion: "trim ''Recursion'' = ''Recursion''"
  by code_simp

text \<open>
  A topic of white space only is blank, also when the white space is not ASCII: a
  no-break space between two spaces, and a line separator after an ideographic space.
\<close>

lemma trim_blank:
  "trim [CHR 0x20, CHR 0xC2, CHR 0xA0, CHR 0x20] = []"
  "trim [CHR 0xE3, CHR 0x80, CHR 0x80, CHR 0xE2, CHR 0x80, CHR 0xA8] = []"
  "trim (''  Recursion'' @ [CHR 0xC2, CHR 0xA0, CHR 0x09]) = ''Recursion''"
  by code_simp+

lemma fetchLesson_blank_topic:
  "fetchLesson parse rp (session_A\<lparr>topic := JStr [CHR 0x20, CHR 0xC2, CHR 0xA0, CHR 0x20]\<rparr>)
     = Inr (session_A\<lparr>topic := JStr [CHR 0x20, CHR 0xC2, CHR 0xA0, CHR 0x20],
              effects := [Alert ''Please enter a topic first!'']\<rparr>)"
  by (simp add: fetchLesson_def fetchLesson_call_def trim_blank session_A_def)

lemma index_key_0: "index_key 0 = ''0''"
  by code_simp

lemma submitQuiz_session_A: "submitQuiz session_A = Inr scored_A"
  by (simp add: submitQuiz_def session_A_def scored_A_def saved_A_def selection_def index_key_0
      item_A_def)

text \<open>
  The lesson with the keyless item reaches the screen: this is the session after
  \<^verbatim>\<open>fetchLesson\<close> got that reply for the typed topic.
\<close>

lemma fetchLesson_nocorrect:
  "fetchLesson JSON_parse_examples (RawText reply_nocorrect) typed_topic = Inr session_nocorrect"
  by (simp add: fetchLesson_def fetchLesson_settle_def fetchLesson_begin_def typed_topic_def
      session_nocorrect_def initial_def trim_Recursion normalize_nocorrect show_record_def
      lesson_snapshot_def extract_nocorrect value_nocorrect_def)

section \<open>The normalizer\<close>

lemma truthy_property_obj:
  "truthy (property v k) \<Longrightarrow> \<exists>kvs x. v = JObj kvs \<and> map_of kvs k = Some x \<and> truthy x"
  by (cases v) (auto split: option.splits)

lemma extractJSON_parses_to: "parses_to parse raw v \<Longrightarrow> extractJSON parse raw = v"
  by (auto simp: parses_to_def extractJSON_def split: option.splits)

lemma truthy_extract_parses_to:
  "truthy (extractJSON parse raw) \<Longrightarrow> parses_to parse raw (extractJSON parse raw)"
  by (auto simp: parses_to_def extractJSON_def split: option.splits if_splits)

lemma normalize_success_iff:
  "(normalize_text parse raw = Normalized r) =
     (\<exists>kvs l q s. parses_to parse raw (JObj kvs)
        \<and> map_of kvs ''lesson'' = Some l \<and> truthy l
        \<and> map_of kvs ''quiz'' = Some q \<and> truthy q
        \<and> map_of kvs ''summary'' = Some s \<and> truthy s
        \<and> r = LessonRecord l (if isArray q then q else JArr []) s)"
  (is "?L = ?R")
proof
  assume L: ?L
  let ?p = "extractJSON parse raw"
  from L have g: "truthy ?p" "truthy (property ?p ''lesson'')" "truthy (property ?p ''quiz'')"
      "truthy (property ?p ''summary'')"
    and r: "r = LessonRecord (property ?p ''lesson'')
         (if isArray (property ?p ''quiz'') then property ?p ''quiz'' else JArr [])
         (property ?p ''summary'')"
    by (auto simp: normalize_text_def Let_def split: if_splits)
  from truthy_property_obj [OF g(2)] obtain kvs where kvs: "?p = JObj kvs" by blast
  from truthy_extract_parses_to [OF g(1)] kvs have "parses_to parse raw (JObj kvs)" by simp
  with g r kvs show ?R
    by (auto split: option.splits)
next
  assume ?R
  then obtain kvs l q s where p: "parses_to parse raw (JObj kvs)"
    and f: "map_of kvs ''lesson'' = Some l" "truthy l" "map_of kvs ''quiz'' = Some q" "truthy q"
      "map_of kvs ''summary'' = Some s" "truthy s"
    and r: "r = LessonRecord l (if isArray q then q else JArr []) s"
    by blast
  from extractJSON_parses_to [OF p] f r show ?L
    by (simp add: normalize_text_def)
qed

text \<open>
  C1, as amended. A raw text is normalized to a record exactly when it parses, directly
  or through the extracted bracketed block, as an object whose \<^verbatim>\<open>lesson\<close>, \<^verbatim>\<open>quiz\<close> and
  \<^verbatim>\<open>summary\<close> are all truthy; the record then holds the parsed \<^verbatim>\<open>lesson\<close> and \<^verbatim>\<open>summary\<close>, and
  the parsed \<^verbatim>\<open>quiz\<close> when it is an array, the empty array otherwise. Every other raw text
  (no parse, or one of the three keys missing or falsy, the \<^verbatim>\<open>quiz\<close> included) is a
  NormalizationFailure that carries the raw text.
\<close>

theorem normalize_text_record_or_failure:
  "(normalize_text parse raw = Normalized r) =
     (\<exists>kvs l q s. parses_to parse raw (JObj kvs)
        \<and> map_of kvs ''lesson'' = Some l \<and> truthy l
        \<and> map_of kvs ''quiz'' = Some q \<and> truthy q
        \<and> map_of kvs ''summary'' = Some s \<and> truthy s
        \<and> r = LessonRecord l (if isArray q then q else JArr []) s)
   \<and> ((\<forall>r'. normalize_text parse raw \<noteq> Normalized r') \<longrightarrow>
        normalize_text parse raw = NormalizationFailure raw)"
proof -
  have "(\<forall>r'. normalize_text parse raw \<noteq> Normalized r') \<longrightarrow>
        normalize_text parse raw = NormalizationFailure raw"
    by (simp add: normalize_text_def Let_def)
  with normalize_success_iff show ?thesis by blast
qed

theorem normalize_text_record_or_failure_witness:
  "normalize_text JSON_parse_examples reply_wrapped =
     Normalized (LessonRecord (JStr ''X is a thing'') (JArr [item_A]) (JStr ''S''))
   \<and> normalize_text JSON_parse_examples reply_B = NormalizationFailure reply_B"
proof -
  let ?kvs = "[(''lesson'', JStr ''X is a thing''), (''quiz'', JArr [item_A]),
               (''summary'', JStr ''S'')]"
  have p: "parses_to JSON_parse_examples reply_wrapped (JObj ?kvs)"
    by (simp add: parses_to_def parse_wrapped jsonMatch_wrapped parse_A reply_nonempty
        value_A_def)
  have "\<exists>kvs l q s. parses_to JSON_parse_examples reply_wrapped (JObj kvs)
        \<and> map_of kvs ''lesson'' = Some l \<and> truthy l
        \<and> map_of kvs ''quiz'' = Some q \<and> truthy q
        \<and> map_of kvs ''summary'' = Some s \<and> truthy s
        \<and> LessonRecord (JStr ''X is a thing'') (JArr [item_A]) (JStr ''S'')
            = LessonRecord l (if isArray q then q else JArr []) s"
    using p by (intro exI [of _ ?kvs] exI [of _ "JStr ''X is a thing''"]
        exI [of _ "JArr [item_A]"] exI [of _ "JStr ''S''"]) simp
  then have a: "normalize_text JSON_parse_examples reply_wrapped =
      Normalized (LessonRecord (JStr ''X is a thing'') (JArr [item_A]) (JStr ''S''))"
    using normalize_text_record_or_failure
      [of JSON_parse_examples reply_wrapped
        "LessonRecord (JStr ''X is a thing'') (JArr [item_A]) (JStr ''S'')"]
    by blast
  have "\<not> parses_to JSON_parse_examples reply_B v" for v
    by (simp add: parses_to_def parse_B jsonMatch_B)
  then have "\<forall>r'. normalize_text JSON_parse_examples reply_B \<noteq> Normalized r'"
    using normalize_text_record_or_failure [of JSON_parse_examples reply_B] by blast
  then have b: "normalize_text JSON_parse_examples reply_B = NormalizationFailure reply_B"
    using normalize_text_record_or_failure [of JSON_parse_examples reply_B] by blast
  from a b show ?thesis by simp
qed

text \<open>
  C1 as stated fails: the reply \<^verbatim>\<open>{"lesson":"X","quiz":0,"summary":"S"}\<close> parses as an object
  with a non-empty \<^verbatim>\<open>lesson\<close>, a value for \<^verbatim>\<open>quiz\<close> that is no sequence, and a non-empty
  \<^verbatim>\<open>summary\<close>; the guard of line 91 rejects it, where the claim promises a record with
  the empty quiz.
\<close>

theorem normalize_text_quiz0_counterexample:
  "parses_to JSON_parse_examples reply_quiz0
     (JObj [(''lesson'', JStr ''X''), (''quiz'', JNum 0), (''summary'', JStr ''S'')])
   \<and> normalize_text JSON_parse_examples reply_quiz0
       \<noteq> Normalized (LessonRecord (JStr ''X'') (JArr []) (JStr ''S''))
   \<and> normalize_text JSON_parse_examples reply_quiz0 = NormalizationFailure reply_quiz0"
  by (simp add: parses_to_def parse_quiz0 reply_nonempty normalize_text_def extract_quiz0
      value_quiz0_def)

section \<open>A failed request\<close>

text \<open>
  C2, as amended. When the request of \<^verbatim>\<open>fetchLesson\<close> throws, the state is the one the
  resets of lines 47-54 made (lesson, quiz and summary empty, nothing selected, no score,
  no chat message), not the one before the call; the topic and the saved progress are
  as before, \<^verbatim>\<open>loading\<close> is off again, and the failure is shown in an alert.
\<close>

theorem fetchLesson_threw:
  assumes "topic w = JStr t" and "trim t \<noteq> []"
  shows "fetchLesson parse Threw w =
     Inr (w\<lparr>loading := False, lesson := JStr [], quiz := JArr [], summary := JStr [],
            score := None, selected := [], messages := [],
            effects := effects w @ [LessonRequest t, Alert connect_alert]\<rparr>)"
  using assms
  by (simp add: fetchLesson_def fetchLesson_settle_def fetchLesson_begin_def)

theorem fetchLesson_threw_witness:
  "topic session_A = JStr ''Recursion'' \<and> trim ''Recursion'' \<noteq> []
   \<and> fetchLesson JSON_parse_examples Threw session_A =
       Inr (session_A\<lparr>loading := False, lesson := JStr [], quiz := JArr [], summary := JStr [],
              score := None, selected := [], messages := [],
              effects := [LessonRequest ''Recursion'', Alert connect_alert]\<rparr>)"
proof -
  have t: "topic session_A = JStr ''Recursion''"
    by (simp add: session_A_def)
  have n: "trim ''Recursion'' \<noteq> []"
    by (simp add: trim_Recursion)
  have "effects session_A = []"
    by (simp add: session_A_def)
  with fetchLesson_threw [OF t n, of JSON_parse_examples] t n show ?thesis
    by simp
qed

text \<open>
  C2 as stated fails: the session that shows the lesson of scenario A, with its quiz and
  two chat messages, shows no lesson, no quiz and no message after a request that threw.
\<close>

theorem fetchLesson_threw_counterexample:
  "lesson session_A = JStr ''X is a thing'' \<and> quiz session_A = JArr [item_A]
   \<and> messages session_A \<noteq> []
   \<and> map_sum id lesson (fetchLesson JSON_parse_examples Threw session_A) = Inr (JStr [])
   \<and> map_sum id quiz (fetchLesson JSON_parse_examples Threw session_A) = Inr (JArr [])
   \<and> map_sum id messages (fetchLesson JSON_parse_examples Threw session_A) = Inr []"
  by (simp add: fetchLesson_def fetchLesson_settle_def fetchLesson_begin_def session_A_def
      trim_Recursion)

section \<open>Requests under way\<close>

text \<open>
  C3 at its failing input. With a topic typed in, \<^verbatim>\<open>fetchLesson\<close> called twice before any
  request has settled sends two requests: the first call turns \<^verbatim>\<open>loading\<close> on, and the
  second, which nothing in \<^verbatim>\<open>fetchLesson\<close> stops, sends again.
\<close>

theorem fetchLesson_twice_two_requests:
  "fetchLesson_call session_A = Inr (fetchLesson_begin ''Recursion'' session_A)
   \<and> loading (fetchLesson_begin ''Recursion'' session_A)
   \<and> map_sum id effects (fetchLesson_call (fetchLesson_begin ''Recursion'' session_A))
       = Inr [LessonRequest ''Recursion'', LessonRequest ''Recursion'']"
  by (simp add: fetchLesson_call_def fetchLesson_begin_def session_A_def trim_Recursion)

text \<open>The chat has the guard: a call that sees \<^verbatim>\<open>chatLoading\<close> on does nothing.\<close>

lemma sendChatMessage_call_while_loading:
  "sendChatMessage_call True seenMessages userText w = w"
  by (simp add: sendChatMessage_call_def)

section \<open>The items of a quiz\<close>

lemma fallback_quiz_valid: "list_all valid_QuizItem (fallback_quiz t)"
  by (simp add: fallback_quiz_def valid_QuizItem_def)

text \<open>
  C4, as amended. When the reply is not normalized, the quiz \<^verbatim>\<open>fetchLesson\<close> shows is the
  fallback quiz, and each of its items has exactly three distinct strings as options and
  a correct option among them. (The items of a normalized reply are shown as parsed.)
\<close>

theorem fallback_items_valid:
  assumes "normalize_text parse rawText = NormalizationFailure x"
  shows "\<exists>items. quiz (fetchLesson_settle parse t (RawText rawText) w) = JArr items
           \<and> list_all valid_QuizItem items"
  using assms
  by (simp add: fetchLesson_settle_def show_record_def synthesize_def fallback_quiz_valid)

theorem fallback_items_valid_witness:
  "normalize_text JSON_parse_examples reply_B = NormalizationFailure reply_B
   \<and> (\<exists>items. quiz (fetchLesson_settle JSON_parse_examples ''Recursion'' (RawText reply_B)
                  (fetchLesson_begin ''Recursion'' typed_topic)) = JArr items
         \<and> list_all valid_QuizItem items)"
  using fallback_items_valid [OF normalize_B] normalize_B by simp

text \<open>
  C4 as stated fails: the only item of the quiz normalized from \<open>reply_twice\<close>, which
  \<^verbatim>\<open>fetchLesson\<close> shows, has two options, both \<^verbatim>\<open>x\<close>, and the correct option \<^verbatim>\<open>z\<close>.
\<close>

theorem normalized_items_counterexample:
  "normalize_text JSON_parse_examples reply_twice =
     Normalized (LessonRecord (JStr ''L'') (JArr [item_twice]) (JStr ''S''))
   \<and> map_sum id quiz (fetchLesson JSON_parse_examples (RawText reply_twice) typed_topic)
       = Inr (JArr [item_twice])
   \<and> \<not> valid_QuizItem item_twice"
  by (simp add: normalize_twice fetchLesson_def fetchLesson_settle_def fetchLesson_begin_def
      show_record_def typed_topic_def initial_def trim_Recursion valid_QuizItem_def item_twice_def)

section \<open>The fallback\<close>

text \<open>
  C5. For every topic and raw text the fallback record has a quiz of exactly two items;
  its lesson is the raw text when that is not empty, and otherwise the failure message
  with the topic in it; its summary is the fixed sentence about the topic.
\<close>

theorem synthesize_record:
  \<open>(\<exists>q1 q2. the_quiz (synthesize t rawText) = JArr [q1, q2])
   \<and> (rawText \<noteq> [] \<longrightarrow> the_lesson (synthesize t rawText) = JStr rawText)
   \<and> (rawText = [] \<longrightarrow> the_lesson (synthesize t rawText)
         = JStr (''Lesson generation failed for "'' @ t @ ''". Check console.''))
   \<and> the_summary (synthesize t rawText)
       = JStr (t @ '' helps developers write clean and maintainable code.'')\<close>
  by (simp add: synthesize_def fallback_quiz_def fallback_lesson_def fallback_summary_def)

theorem synthesize_record_witness:
  \<open>(\<exists>q1 q2. the_quiz (synthesize ''Recursion'' reply_B) = JArr [q1, q2])
   \<and> the_lesson (synthesize ''Recursion'' reply_B) = JStr reply_B
   \<and> the_lesson (synthesize ''Recursion'' [])
       = JStr ''Lesson generation failed for "Recursion". Check console.''
   \<and> the_summary (synthesize ''Recursion'' reply_B)
       = JStr ''Recursion helps developers write clean and maintainable code.''\<close>
  using synthesize_record [of "''Recursion''" reply_B] synthesize_record [of "''Recursion''" "[]"]
    reply_nonempty
  by simp

section \<open>Selections and the score\<close>

lemma digit_char_inj: "a < 10 \<Longrightarrow> b < 10 \<Longrightarrow> digit_char a = digit_char b \<Longrightarrow> a = b"
proof -
  assume a: "a < 10" and b: "b < 10" and e: "digit_char a = digit_char b"
  from e have "of_char (digit_char a) = (of_char (digit_char b) :: nat)"
    by simp
  then have "(a + 48) mod 256 = (b + 48) mod 256"
    by (simp add: digit_char_def)
  with a b show "a = b"
    by simp
qed

lemma index_key_nonempty: "index_key n \<noteq> []"
  by (subst index_key.simps) simp

text \<open>Two indices never share a key, so a choice for one question leaves the others.\<close>

lemma index_key_inj: "index_key m = index_key n \<Longrightarrow> m = n"
proof (induction m arbitrary: n rule: index_key.induct)
  case (1 m)
  show ?case
  proof (cases "10 \<le> m")
    case True
    show ?thesis
    proof (cases "10 \<le> n")
      case n: True
      from "1.prems" True n
      have "index_key (m div 10) @ [digit_char (m mod 10)]
            = index_key (n div 10) @ [digit_char (n mod 10)]"
        by (simp add: index_key.simps [of m] index_key.simps [of n])
      then have k: "index_key (m div 10) = index_key (n div 10)"
        and d: "digit_char (m mod 10) = digit_char (n mod 10)"
        by simp_all
      from "1.IH" [OF True k] have "m div 10 = n div 10" .
      moreover from d have "m mod 10 = n mod 10"
        by (intro digit_char_inj) simp_all
      ultimately show ?thesis
        by (metis div_mult_mod_eq)
    next
      case n: False
      from "1.prems" True n
      have "index_key (m div 10) @ [digit_char (m mod 10)] = [digit_char n]"
        by (simp add: index_key.simps [of m] index_key.simps [of n])
      with index_key_nonempty [of "m div 10"] show ?thesis
        by (cases "index_key (m div 10)") simp_all
    qed
  next
    case False
    show ?thesis
    proof (cases "10 \<le> n")
      case n: True
      from "1.prems" False n
      have "[digit_char m] = index_key (n div 10) @ [digit_char (n mod 10)]"
        by (simp add: index_key.simps [of m] index_key.simps [of n])
      with index_key_nonempty [of "n div 10"] show ?thesis
        by (cases "index_key (n div 10)") simp_all
    next
      case n: False
      from "1.prems" False n have "digit_char m = digit_char n"
        by (simp add: index_key.simps [of m] index_key.simps [of n])
      with False n show ?thesis
        by (intro digit_char_inj) simp_all
    qed
  qed
qed

lemma index_key_eq_iff [simp]: "index_key m = index_key n \<longleftrightarrow> m = n"
  using index_key_inj by blast

lemma selection_update:
  "selection (AList.update (index_key j) v sel) i = (if i = j then v else selection sel i)"
  by (simp add: selection_def update_conv')

lemma run_selects_Nil: "run_selects [] w = w"
  by (simp add: run_selects_def)

lemma run_selects_Cons:
  "run_selects ((i, opt) # calls) w = run_selects calls (selectOption i opt w)"
  by (simp add: run_selects_def)

lemma selectOption_locked: "score w \<noteq> None \<Longrightarrow> selectOption i opt w = w"
  by (simp add: selectOption_def)

lemma run_selects_locked: "score w \<noteq> None \<Longrightarrow> run_selects calls w = w"
  by (induction calls arbitrary: w)
    (auto simp: selectOption_locked run_selects_Nil run_selects_Cons)

lemma selectOption_open:
  "score w = None \<Longrightarrow>
     score (selectOption i opt w) = None \<and> quiz (selectOption i opt w) = quiz w
     \<and> selected (selectOption i opt w) = AList.update (index_key i) opt (selected w)"
  by (simp add: selectOption_def Let_def)

lemma run_selects_open:
  "score w = None \<Longrightarrow>
     score (run_selects calls w) = None \<and> quiz (run_selects calls w) = quiz w
     \<and> selection (selected (run_selects calls w)) i
        = (case final_selection calls i of Some v \<Rightarrow> v | None \<Rightarrow> selection (selected w) i)"
proof (induction calls arbitrary: w)
  case Nil
  then show ?case by (simp add: final_selection_def run_selects_Nil)
next
  case (Cons c calls)
  obtain j opt where c: "c = (j, opt)" by (cases c)
  from selectOption_open [OF Cons.prems, of j opt]
  have s: "score (selectOption j opt w) = None" and q: "quiz (selectOption j opt w) = quiz w"
    and sel: "selected (selectOption j opt w) = AList.update (index_key j) opt (selected w)"
    by simp_all
  from Cons.IH [OF s] show ?case
    by (auto simp: c q sel selection_update final_selection_def map_of_append run_selects_Cons
        split: option.splits)
qed

lemma strict_eq_primitive: "primitive c \<Longrightarrow> strict_eq v c = (v = c)"
  by (cases v; cases c) auto

lemma count_correct_zip:
  "list_all has_correctOption items \<Longrightarrow>
     count_correct sel items i s =
       Inr (s + length (filter (\<lambda>(k, q). selection sel k = property q ''correct'')
                  (zip [i..<i + length items] items)))"
proof (induction items arbitrary: i s)
  case Nil
  then show ?case by simp
next
  case (Cons q qs)
  from Cons.prems have qs: "list_all has_correctOption qs" and "has_correctOption q"
    by simp_all
  then have q: "\<not> nullish q" and c: "primitive (property q ''correct'')"
    by (simp_all add: has_correctOption_def)
  have "i < i + length (q # qs)"
    by simp
  from upt_conv_Cons [OF this]
  have "[i..<i + length (q # qs)] = i # [Suc i..<i + length (q # qs)]" .
  moreover have "i + length (q # qs) = Suc i + length qs"
    by simp
  ultimately have u: "[i..<i + length (q # qs)] = i # [Suc i..<Suc i + length qs]"
    by (simp only:)
  show ?case
    unfolding u using q by (simp add: Cons.IH [OF qs] strict_eq_primitive [OF c])
qed

lemma zip_upt_nth: "zip [0..<length xs] xs = map (\<lambda>k. (k, xs ! k)) [0..<length xs]"
  by (rule nth_equalityI) simp_all

lemma count_correct_indices:
  assumes "list_all has_correctOption items"
  shows "count_correct sel items 0 0 =
     Inr (length (filter (\<lambda>k. selection sel k = property (items ! k) ''correct'')
            [0..<length items]))"
proof -
  have "length (filter (\<lambda>(k, q). selection sel k = property q ''correct'')
           (zip [0..<0 + length items] items))
      = length (filter (\<lambda>k. selection sel k = property (items ! k) ''correct'')
           [0..<length items])"
    by (simp add: zip_upt_nth filter_map comp_def)
  with count_correct_zip [OF assms, of sel 0 0] show ?thesis by simp
qed

text \<open>
  C6, as amended. In a session with no selection and no score yet, whose items each
  carry a correct option, any sequence of selects followed by \<^verbatim>\<open>submitQuiz\<close> sets the score
  to the number of indices whose last chosen option is the item's \<^verbatim>\<open>correct\<close>; an index
  never chosen does not count. With no items, \<^verbatim>\<open>submitQuiz\<close> changes nothing and the score
  stays unset.
\<close>

theorem submitQuiz_score:
  assumes q: "quiz w = JArr items" and typed: "list_all has_correctOption items"
    and fresh: "selected w = []" "score w = None"
  shows "(items \<noteq> [] \<longrightarrow>
          (\<exists>w'. submitQuiz (run_selects calls w) = Inr w'
             \<and> score w' = Some (length (filter
                  (\<lambda>i. final_selection calls i = Some (property (items ! i) ''correct''))
                  [0..<length items]))))
       \<and> (items = [] \<longrightarrow> submitQuiz (run_selects calls w) = Inr (run_selects calls w)
             \<and> score (run_selects calls w) = None)"
proof -
  let ?w = "run_selects calls w"
  from run_selects_open [OF fresh(2), of calls]
  have s: "score ?w = None" and qw: "quiz ?w = JArr items"
    and sel: "\<And>i. selection (selected ?w) i
        = (case final_selection calls i of Some v \<Rightarrow> v | None \<Rightarrow> selection (selected w) i)"
    using q by simp_all
  have sel': "(selection (selected ?w) i = property (items ! i) ''correct'')
      = (final_selection calls i = Some (property (items ! i) ''correct''))"
    if "i < length items" for i
  proof -
    from typed that have "has_correctOption (items ! i)"
      by (simp add: list_all_length)
    then have c: "property (items ! i) ''correct'' \<noteq> JUndefined"
      by (auto simp: has_correctOption_def)
    have "selection (selected w) i = JUndefined"
      by (simp add: fresh(1) selection_def)
    with c show ?thesis
      unfolding sel by (auto split: option.splits)
  qed
  have "filter (\<lambda>i. selection (selected ?w) i = property (items ! i) ''correct'') [0..<length items]
      = filter (\<lambda>i. final_selection calls i = Some (property (items ! i) ''correct''))
          [0..<length items]"
    by (rule filter_cong) (simp_all add: sel')
  then show ?thesis
    by (simp add: submitQuiz_def qw s count_correct_indices [OF typed])
qed

theorem submitQuiz_score_witness:
  "(\<exists>w'. submitQuiz (run_selects [(0, JStr ''x''), (0, JStr ''y'')] fresh_A) = Inr w'
        \<and> score w' = Some 1)
   \<and> submitQuiz (run_selects [(0, JStr ''y'')] (initial None))
       = Inr (run_selects [(0, JStr ''y'')] (initial None))
   \<and> score (run_selects [(0, JStr ''y'')] (initial None)) = None"
proof -
  have a: "quiz fresh_A = JArr [item_A]" "selected fresh_A = []" "score fresh_A = None"
    by (simp_all add: fresh_A_def initial_def)
  have t: "list_all has_correctOption [item_A]"
    by (simp add: has_correctOption_def item_A_def)
  have b: "quiz (initial None) = JArr []" "selected (initial None) = []"
    "score (initial None) = None"
    by (simp_all add: initial_def)
  have c: "length (filter
      (\<lambda>i. final_selection [(0, JStr ''x''), (0, JStr ''y'')] i
             = Some (property ([item_A] ! i) ''correct'')) [0..<length [item_A]]) = 1"
    by (simp add: final_selection_def item_A_def)
  from submitQuiz_score [OF a(1) t a(2) a(3), of "[(0, JStr ''x''), (0, JStr ''y'')]"] c
    submitQuiz_score [OF b(1) _ b(2) b(3), of "[(0, JStr ''y'')]"]
  show ?thesis by simp
qed

text \<open>
  C6 as stated fails for items without \<^verbatim>\<open>correct\<close>: in the session \<^verbatim>\<open>fetchLesson\<close> makes of
  \<open>reply_nocorrect\<close> nothing is chosen, so no index has a selection equal to its
  correct option, and \<^verbatim>\<open>submitQuiz\<close> sets the score to 1 (\<^verbatim>\<open>undefined === undefined\<close>).
\<close>

theorem submitQuiz_nocorrect_counterexample:
  "fetchLesson JSON_parse_examples (RawText reply_nocorrect) typed_topic = Inr session_nocorrect
   \<and> quiz session_nocorrect = JArr [item_nocorrect]
   \<and> selected session_nocorrect = [] \<and> score session_nocorrect = None
   \<and> final_selection [] 0 = None
   \<and> map_sum id score (submitQuiz (run_selects [] session_nocorrect)) = Inr (Some 1)"
proof -
  have "quiz session_nocorrect = JArr [item_nocorrect] \<and> selected session_nocorrect = []
      \<and> score session_nocorrect = None \<and> final_selection [] 0 = None
      \<and> map_sum id score (submitQuiz (run_selects [] session_nocorrect)) = Inr (Some 1)"
    by (simp add: final_selection_def submitQuiz_def run_selects_def session_nocorrect_def
        typed_topic_def initial_def item_nocorrect_def selection_def)
  with fetchLesson_nocorrect show ?thesis
    by (rule conjI)
qed

section \<open>The lock\<close>

lemma submitQuiz_again:
  assumes "submitQuiz w = Inr w1"
  shows "submitQuiz w1 = Inr w1"
proof (cases "quiz w")
  case (JArr items)
  show ?thesis
  proof (cases "items = []")
    case True
    with assms JArr show ?thesis by (simp add: submitQuiz_def)
  next
    case False
    with assms JArr obtain s where s: "count_correct (selected w) items 0 0 = Inr s"
      and w1: "w1 = w\<lparr>score := Some s,
          storage := Some (JObj [(''topic'', topic w), (''lesson'', lesson w),
            (''quiz'', quiz w), (''summary'', summary w),
            (''selected'', JObj (selected w)), (''score'', JNum (of_nat s))])\<rparr>"
      by (auto simp: submitQuiz_def split: sum.splits)
    from False JArr s show ?thesis
      by (simp add: submitQuiz_def w1)
  qed
qed (use assms in \<open>auto simp: submitQuiz_def split: if_splits\<close>)

text \<open>
  C7. In a state whose score is set, a select changes nothing, and neither does any
  sequence of selects; and once a submit has set the score, a second submit, after any
  selects, gives the very same state: score, selections and the saved progress.
\<close>

theorem quiz_locked_once_scored:
  "(score w \<noteq> None \<longrightarrow> selectOption i opt w = w \<and> run_selects calls w = w)
   \<and> (submitQuiz w0 = Inr w1 \<and> score w1 \<noteq> None \<longrightarrow>
        submitQuiz (run_selects calls w1) = Inr w1)"
  by (auto simp: selectOption_locked run_selects_locked submitQuiz_again)

theorem quiz_locked_once_scored_witness:
  "submitQuiz session_A = Inr scored_A \<and> score scored_A = Some 1
   \<and> selectOption 0 (JStr ''x'') scored_A = scored_A
   \<and> run_selects [(0, JStr ''x''), (1, JStr ''z'')] scored_A = scored_A
   \<and> submitQuiz (run_selects [(0, JStr ''x''), (1, JStr ''z'')] scored_A) = Inr scored_A"
proof -
  have s: "score scored_A = Some 1" "score scored_A \<noteq> None"
    by (simp_all add: scored_A_def)
  from quiz_locked_once_scored
    [of scored_A 0 "JStr ''x''" "[(0, JStr ''x''), (1, JStr ''z'')]" session_A scored_A]
    submitQuiz_session_A s
  show ?thesis by blast
qed

section \<open>The chat\<close>

lemma message_copy: "\<lparr>role = role m, content = content m\<rparr> = (m :: message)"
  by (cases m) simp

lemma windowForPrompt_eq: "windowForPrompt h = drop (length h - 10) h"
  by (simp add: windowForPrompt_def slice_last_def message_copy)

text \<open>
  C8. The window of a history has at most ten messages (ten, or all of them when there
  are fewer), and the history is some older messages followed by the window: the window
  is the end of the history, in its order.
\<close>

theorem windowForPrompt_last_ten:
  "length (windowForPrompt h) \<le> 10
   \<and> length (windowForPrompt h) = min 10 (length h)
   \<and> (\<exists>older. h = older @ windowForPrompt h)"
proof -
  have "h = take (length h - 10) h @ windowForPrompt h"
    by (simp add: windowForPrompt_eq)
  then have "\<exists>older. h = older @ windowForPrompt h" ..
  moreover have "length (windowForPrompt h) = min 10 (length h)"
    by (simp add: windowForPrompt_eq)
  ultimately show ?thesis
    by simp
qed

theorem windowForPrompt_last_ten_witness:
  "length (windowForPrompt []) = 0
   \<and> length (windowForPrompt (replicate 5 \<lparr>role = User, content = ''Why?''\<rparr>)) = 5
   \<and> length (windowForPrompt (replicate 10 \<lparr>role = User, content = ''Why?''\<rparr>)) = 10
   \<and> length (windowForPrompt (replicate 25 \<lparr>role = User, content = ''Why?''\<rparr>)) = 10"
  using windowForPrompt_last_ten [of "[]"]
    windowForPrompt_last_ten [of "replicate 5 \<lparr>role = User, content = ''Why?''\<rparr>"]
    windowForPrompt_last_ten [of "replicate 10 \<lparr>role = User, content = ''Why?''\<rparr>"]
    windowForPrompt_last_ten [of "replicate 25 \<lparr>role = User, content = ''Why?''\<rparr>"]
  by simp

text \<open>
  C10. A call of \<^verbatim>\<open>sendChatMessage\<close> with a non-empty text that sees \<^verbatim>\<open>chatLoading\<close> off, once
  its request has settled, has added two messages to the history: the user's text, then
  the assistant's, which is the raw reply, or the fixed message when the request threw.
  This holds whatever state the handler saw, also for a call from the current render,
  where the last message is then the assistant's.
\<close>

theorem sendChatMessage_appends_two:
  assumes "userText \<noteq> []"
  shows "(\<not> seenLoading \<longrightarrow>
           messages (sendChatMessage_settle speakResponse rp
             (sendChatMessage_call seenLoading seenMessages userText w))
           = messages w @ [\<lparr>role = User, content = userText\<rparr>,
               \<lparr>role = Assistant,
                content = (case rp of RawText rawText \<Rightarrow> rawText | Threw \<Rightarrow> chat_error_text)\<rparr>])
       \<and> (\<not> chatLoading w \<longrightarrow>
           messages (sendChatMessage userText speakResponse rp w)
           = messages w @ [\<lparr>role = User, content = userText\<rparr>,
               \<lparr>role = Assistant,
                content = (case rp of RawText rawText \<Rightarrow> rawText | Threw \<Rightarrow> chat_error_text)\<rparr>]
           \<and> role (last (messages (sendChatMessage userText speakResponse rp w))) = Assistant)"
  using assms
  by (auto simp: sendChatMessage_def sendChatMessage_settle_def sendChatMessage_call_def Let_def
      split: reply.splits)

theorem sendChatMessage_appends_two_witness:
  "messages (sendChatMessage ''How?'' True (RawText ''Like this.'') session_A)
     = [\<lparr>role = User, content = ''Why?''\<rparr>, \<lparr>role = Assistant, content = ''Because.''\<rparr>,
        \<lparr>role = User, content = ''How?''\<rparr>, \<lparr>role = Assistant, content = ''Like this.''\<rparr>]
   \<and> messages (sendChatMessage ''How?'' True Threw session_A)
     = [\<lparr>role = User, content = ''Why?''\<rparr>, \<lparr>role = Assistant, content = ''Because.''\<rparr>,
        \<lparr>role = User, content = ''How?''\<rparr>, \<lparr>role = Assistant, content = chat_error_text\<rparr>]
   \<and> messages (sendChatMessage_settle True Threw (sendChatMessage_call False [] ''How?'' session_A))
     = [\<lparr>role = User, content = ''Why?''\<rparr>, \<lparr>role = Assistant, content = ''Because.''\<rparr>,
        \<lparr>role = User, content = ''How?''\<rparr>, \<lparr>role = Assistant, content = chat_error_text\<rparr>]"
proof -
  have n: "''How?'' \<noteq> []"
    by simp
  have s: "\<not> chatLoading session_A"
    "messages session_A
       = [\<lparr>role = User, content = ''Why?''\<rparr>, \<lparr>role = Assistant, content = ''Because.''\<rparr>]"
    by (simp_all add: session_A_def)
  from sendChatMessage_appends_two [OF n, of False True "RawText ''Like this.''" "[]" session_A]
    sendChatMessage_appends_two [OF n, of False True Threw "[]" session_A] s
  show ?thesis by simp
qed

section \<open>The saved progress\<close>

lemma load_progress_keeps_answers:
  "selected (load_progress w) = selected w \<and> score (load_progress w) = score w
   \<and> messages (load_progress w) = messages w"
  by (simp add: load_progress_def split: option.splits)

text \<open>
  C9 at its failing input. \<^verbatim>\<open>submitQuiz\<close> saves the selections and the score of the session;
  the component that mounts on that store shows the saved topic, lesson, quiz and
  summary, and has no selection and no score (and no chat message).
\<close>

theorem load_progress_without_answers:
  "submitQuiz session_A = Inr (session_A\<lparr>score := Some 1, storage := Some saved_A\<rparr>)
   \<and> property saved_A ''selected'' = JObj [(''0'', JStr ''y'')]
   \<and> property saved_A ''score'' = JNum 1
   \<and> load_progress (initial (Some saved_A))
       = (initial (Some saved_A))\<lparr>topic := JStr ''Recursion'', lesson := JStr ''X is a thing'',
            quiz := JArr [item_A], summary := JStr ''S''\<rparr>
   \<and> selected (load_progress (initial (Some saved_A))) = []
   \<and> score (load_progress (initial (Some saved_A))) = None
   \<and> messages (load_progress (initial (Some saved_A))) = []"
proof -
  have "submitQuiz session_A = Inr (session_A\<lparr>score := Some 1, storage := Some saved_A\<rparr>)"
    using submitQuiz_session_A by (simp add: scored_A_def)
  then show ?thesis
    by (simp add: load_progress_def saved_A_def initial_def or_else_def)
qed

end
